theory Spec2Isabelle
  imports Complex_Main
begin

section \<open>Request values and library functions\<close>

text \<open>
  The handlers of \<^verbatim>\<open>routes.py\<close> read a parsed JSON body. Python is dynamically typed, so a
  field of the body is any JSON value; numbers are kept as rationals (every finite
  float is one, and the code only compares them with \<open>-90\<close>, \<open>90\<close>, \<open>-180\<close>, \<open>180\<close>).
  \<open>JTime\<close> stands for the \<^verbatim>\<open>isoformat()\<close> rendering of a timestamp in a response.
\<close>

datatype jval =
    JNull
  | JBool bool
  | JNum rat
  | JStr string
  | JArr "jval list"
  | JObj "(string \<times> jval) list"
  | JTime nat

type_synonym jdict = "(string \<times> jval) list"

text \<open>Python truthiness, as used by \<^verbatim>\<open>if not x\<close>, \<^verbatim>\<open>x or y\<close> and \<^verbatim>\<open>x and y\<close>.\<close>

fun truthy :: "jval \<Rightarrow> bool" where
  "truthy JNull = False"
| "truthy (JBool b) = b"
| "truthy (JNum q) = (q \<noteq> 0)"
| "truthy (JStr s) = (s \<noteq> [])"
| "truthy (JArr xs) = (xs \<noteq> [])"
| "truthy (JObj kvs) = (kvs \<noteq> [])"
| "truthy (JTime t) = True"

definition py_or :: "jval \<Rightarrow> jval \<Rightarrow> jval" where
  "py_or a b = (if truthy a then a else b)"

text \<open>\<^verbatim>\<open>data.get(k)\<close>, \<^verbatim>\<open>data.get(k, d)\<close>, \<^verbatim>\<open>k in data\<close> and \<^verbatim>\<open>data[k] = v\<close> on a dict.\<close>

definition dict_get :: "jdict \<Rightarrow> string \<Rightarrow> jval" where
  "dict_get d k = (case map_of d k of None \<Rightarrow> JNull | Some v \<Rightarrow> v)"

definition dict_get_default :: "jdict \<Rightarrow> string \<Rightarrow> jval \<Rightarrow> jval" where
  "dict_get_default d k dflt = (case map_of d k of None \<Rightarrow> dflt | Some v \<Rightarrow> v)"

definition dict_has :: "jdict \<Rightarrow> string \<Rightarrow> bool" where
  "dict_has d k = (map_of d k \<noteq> None)"

fun dict_set :: "jdict \<Rightarrow> string \<Rightarrow> jval \<Rightarrow> jdict" where
  "dict_set [] k v = [(k, v)]"
| "dict_set ((k', v') # d) k v = (if k' = k then (k, v) # d else (k', v') # dict_set d k v)"

fun dict_pop :: "jdict \<Rightarrow> string \<Rightarrow> jdict" where
  "dict_pop [] k = []"
| "dict_pop ((k', v') # d) k = (if k' = k then dict_pop d k else (k', v') # dict_pop d k)"

text \<open>
  Functions of the Python library that the code calls and that are no part of the
  repository: \<^verbatim>\<open>int(s)\<close> and \<^verbatim>\<open>float(s)\<close> on a \<^verbatim>\<open>str\<close> (\<open>None\<close> is
  \<^verbatim>\<open>ValueError\<close>; for \<^verbatim>\<open>float\<close> also a result that is no finite number, which fails every
  range test just as the exception does), and \<^verbatim>\<open>urlparse(s)\<close>, of which the code reads
  \<^verbatim>\<open>scheme\<close> and \<^verbatim>\<open>netloc\<close> (\<open>None\<close> is a raised exception).
\<close>

record pylib =
  int_str :: "string \<Rightarrow> int option"
  float_str :: "string \<Rightarrow> rat option"
  urlparse :: "string \<Rightarrow> (string \<times> string) option"

text \<open>
  An instance for evaluating examples: decimal literals with an optional sign, and URLs
  of the plain shape \<^verbatim>\<open>scheme://netloc/rest\<close>.
\<close>

definition is_digit :: "char \<Rightarrow> bool" where
  "is_digit c = (c \<in> set ''0123456789'')"

definition digit_val :: "char \<Rightarrow> int" where
  "digit_val c = int (of_char c) - 48"

definition dec_nat :: "string \<Rightarrow> int option" where
  "dec_nat s = (if s \<noteq> [] \<and> list_all is_digit s
                then Some (foldl (\<lambda>n c. 10 * n + digit_val c) 0 s) else None)"

fun dec_int :: "string \<Rightarrow> int option" where
  "dec_int [] = None"
| "dec_int (c # cs) =
     (if c = CHR ''-'' then map_option uminus (dec_nat cs)
      else if c = CHR ''+'' then dec_nat cs
      else dec_nat (c # cs))"

fun split_scheme :: "string \<Rightarrow> string \<Rightarrow> (string \<times> string) option" where
  "split_scheme acc [] = None"
| "split_scheme acc (c # cs) =
     (if c = CHR '':'' then Some (rev acc, cs) else split_scheme (c # acc) cs)"

definition simple_urlparse :: "string \<Rightarrow> (string \<times> string) option" where
  "simple_urlparse s =
     (case split_scheme [] s of
        None \<Rightarrow> Some ([], [])
      | Some (sch, rest) \<Rightarrow>
          (if take 2 rest = ''//''
           then Some (sch, takeWhile (\<lambda>c. c \<notin> set ''/?#'') (drop 2 rest))
           else Some (sch, [])))"

definition stdlib :: pylib where
  "stdlib = \<lparr> int_str = dec_int,
              float_str = (\<lambda>s. map_option of_int (dec_int s)),
              urlparse = simple_urlparse \<rparr>"

section \<open>Validators (utils/validators.py)\<close>

definition lower_char :: "char \<Rightarrow> char" where
  "lower_char c =
     (case map_of (zip ''ABCDEFGHIJKLMNOPQRSTUVWXYZ'' ''abcdefghijklmnopqrstuvwxyz'') c of
        None \<Rightarrow> c
      | Some d \<Rightarrow> d)"

definition lower :: "string \<Rightarrow> string" where
  "lower s = map lower_char s"

definition endswith :: "string \<Rightarrow> string \<Rightarrow> bool" where
  "endswith s suffix = (length suffix \<le> length s \<and> drop (length s - length suffix) s = suffix)"

definition image_extensions :: "string list" where
  "image_extensions = [''.jpg'', ''.jpeg'', ''.png'', ''.gif'', ''.webp'', ''.bmp'']"

definition video_extensions :: "string list" where
  "video_extensions = [''.mp4'', ''.avi'', ''.mov'', ''.wmv'', ''.flv'', ''.webm'', ''.mkv'']"

text \<open>
  \<^verbatim>\<open>validate_media_url(url, media_type)\<close>, called with \<^verbatim>\<open>'image'\<close> or \<^verbatim>\<open>'video'\<close>.
  A truthy value that is no string makes \<^verbatim>\<open>urlparse\<close> raise, which the
  \<^verbatim>\<open>except Exception\<close> turns into \<open>False\<close>.
\<close>

definition validate_media_url :: "pylib \<Rightarrow> jval \<Rightarrow> string \<Rightarrow> bool" where
  "validate_media_url lib url media_type =
     (if \<not> truthy url then True
      else case url of
        JStr s \<Rightarrow>
          (case urlparse lib s of
             None \<Rightarrow> False
           | Some (scheme, netloc) \<Rightarrow>
               if scheme = [] \<or> netloc = [] then False
               else if scheme \<notin> set [''http'', ''https''] then False
               else if media_type = ''image''
                 then list_ex (endswith (lower s)) image_extensions
               else if media_type = ''video''
                 then list_ex (endswith (lower s)) video_extensions
               else True)
      | _ \<Rightarrow> False)"

text \<open>\<^verbatim>\<open>float(x)\<close>: \<open>None\<close> is \<^verbatim>\<open>ValueError\<close> or \<^verbatim>\<open>TypeError\<close>.\<close>

fun py_float :: "pylib \<Rightarrow> jval \<Rightarrow> rat option" where
  "py_float lib (JNum q) = Some q"
| "py_float lib (JBool b) = Some (if b then 1 else 0)"
| "py_float lib (JStr s) = float_str lib s"
| "py_float lib _ = None"

definition validate_coordinates :: "pylib \<Rightarrow> jval \<Rightarrow> jval \<Rightarrow> bool" where
  "validate_coordinates lib latitude longitude =
     (if latitude = JNull \<or> longitude = JNull then True
      else case py_float lib latitude of
        None \<Rightarrow> False
      | Some lat \<Rightarrow>
          (case py_float lib longitude of
             None \<Rightarrow> False
           | Some lng \<Rightarrow>
               if \<not> (-90 \<le> lat \<and> lat \<le> 90) then False
               else if \<not> (-180 \<le> lng \<and> lng \<le> 180) then False
               else True))"

section \<open>Pagination (routes.py)\<close>




section \<open>Data model (models.py)\<close>

text \<open>
  A table is keyed by its primary key where the code reads rows by key
  (\<^verbatim>\<open>Record.query.get\<close>), and is a list of rows where the code filters and counts
  (\<^verbatim>\<open>Vote.query.filter_by(...).first()\<close>, \<^verbatim>\<open>.count()\<close>). A column that a handler fills
  from the request body holds whatever JSON value the body had. \<^verbatim>\<open>status\<close> only ever
  receives string literals or a value checked against a list of strings.
\<close>

record record_row =
  rec_type :: jval
  title :: jval
  description :: jval
  status :: string
  latitude :: jval
  longitude :: jval
  location_name :: jval
  created_at :: nat
  updated_at :: nat
  resolution_notes :: jval
  is_anonymous :: bool
  vote_count :: nat
  urgency_level :: jval
  normal_user_id :: "nat option"
  assigned_admin_id :: "nat option"

record media_row =
  media_id :: nat
  media_record_id :: nat
  media_type :: string
  media_url :: jval
  filename :: jval
  file_size :: jval
  uploaded_at :: nat
  image_url :: jval
  video_url :: jval

record vote_row =
  vote_id :: nat
  vote_record_id :: nat
  vote_user_id :: nat
  vote_type :: jval
  vote_created_at :: nat

record history_row =
  hist_id :: nat
  hist_record_id :: nat
  old_status :: string
  new_status :: string
  changed_by :: "nat option"
  change_reason :: jval
  changed_at :: nat

record user_row =
  user_name :: string
  user_email :: string
  phone_number :: "string option"

record database =
  records :: "nat \<rightharpoonup> record_row"
  media :: "media_row list"
  votes :: "vote_row list"
  status_history :: "history_row list"
  normal_users :: "nat \<rightharpoonup> user_row"
  next_record_id :: nat
  next_media_id :: nat
  next_vote_id :: nat
  next_history_id :: nat

text \<open>The JWT identity: \<^verbatim>\<open>identity['id']\<close> and \<^verbatim>\<open>identity.get('role')\<close>.\<close>

record identity =
  ident_id :: nat
  role :: string

type_synonym response = "jval \<times> nat"

definition error_response :: "string \<Rightarrow> nat \<Rightarrow> response" where
  "error_response msg code = (JObj [(''error'', JStr msg)], code)"

text \<open>A write to a row object that a query returned: the first row that matches.\<close>

fun update_first :: "('a \<Rightarrow> bool) \<Rightarrow> ('a \<Rightarrow> 'a) \<Rightarrow> 'a list \<Rightarrow> 'a list" where
  "update_first P f [] = []"
| "update_first P f (x # xs) = (if P x then f x # xs else x # update_first P f xs)"

definition opt_id :: "nat option \<Rightarrow> jval" where
  "opt_id x = (case x of None \<Rightarrow> JNull | Some n \<Rightarrow> JNum (of_nat n))"

definition media_to_dict :: "media_row \<Rightarrow> jdict" where
  "media_to_dict m =
     [(''id'', JNum (of_nat (media_id m))),
      (''record_id'', JNum (of_nat (media_record_id m))),
      (''media_type'', JStr (media_type m)),
      (''media_url'', media_url m),
      (''filename'', filename m),
      (''file_size'', file_size m),
      (''uploaded_at'', JTime (uploaded_at m)),
      (''image_url'', image_url m),
      (''video_url'', video_url m)]"

text \<open>
  \<^verbatim>\<open>Record.to_dict\<close>. The relationship \<^verbatim>\<open>self.media\<close> is the media rows of the record,
  \<^verbatim>\<open>self.normal_user\<close> the user row its foreign key names, if there is one.
\<close>

definition to_dict :: "database \<Rightarrow> nat \<Rightarrow> record_row \<Rightarrow> jdict" where
  "to_dict db i r =
     (let ms = filter (\<lambda>m. media_record_id m = i) (media db);
          media0 = (case ms of [] \<Rightarrow> None | m # _ \<Rightarrow> Some m);
          normal_user = (case normal_user_id r of None \<Rightarrow> None | Some u \<Rightarrow> normal_users db u)
      in [(''id'', JNum (of_nat i)),
          (''type'', rec_type r),
          (''title'', title r),
          (''description'', description r),
          (''status'', JStr (status r)),
          (''latitude'', latitude r),
          (''longitude'', longitude r),
          (''location_name'', location_name r),
          (''urgency_level'', urgency_level r),
          (''vote_count'', JNum (of_nat (vote_count r))),
          (''is_anonymous'', JBool (is_anonymous r)),
          (''resolution_notes'', resolution_notes r),
          (''normal_user_id'', opt_id (normal_user_id r)),
          (''assigned_admin_id'', opt_id (assigned_admin_id r)),
          (''created_at'', JTime (created_at r)),
          (''updated_at'', JTime (updated_at r)),
          (''image_url'', (case media0 of
                             None \<Rightarrow> JNull
                           | Some m \<Rightarrow> if truthy (image_url m) then image_url m else JNull)),
          (''video_url'', (case media0 of
                             None \<Rightarrow> JNull
                           | Some m \<Rightarrow> if truthy (video_url m) then video_url m else JNull)),
          (''media'', JArr (map (\<lambda>m. JObj (media_to_dict m)) ms)),
          (''creator_name'', (case normal_user of
                                None \<Rightarrow> JStr ''Anonymous''
                              | Some u \<Rightarrow> if \<not> is_anonymous r then JStr (user_name u)
                                          else JStr ''Anonymous''))])"

text \<open>\<^verbatim>\<open>Record.to_public_dict\<close>, with its condition \<^verbatim>\<open>self.is_anonymous or True\<close>.\<close>

definition to_public_dict :: "database \<Rightarrow> nat \<Rightarrow> record_row \<Rightarrow> jdict" where
  "to_public_dict db i r =
     (let data = to_dict db i r
      in if is_anonymous r \<or> True
         then dict_set (dict_pop data ''normal_user_id'') ''creator_name'' (JStr ''Anonymous'')
         else data)"

text \<open>
  The columns declared \<^verbatim>\<open>nullable=False\<close> that a handler fills from the request: a
  \<^verbatim>\<open>None\<close> there makes the flush raise, which the handler's \<^verbatim>\<open>except Exception\<close>
  answers with a rollback and status 500. What else the storage engine may refuse
  (a value it cannot bind to the column type, a string longer than the column) is not
  modelled.
\<close>

definition record_not_null :: "record_row \<Rightarrow> bool" where
  "record_not_null r = (rec_type r \<noteq> JNull \<and> title r \<noteq> JNull \<and> description r \<noteq> JNull)"

definition media_not_null :: "media_row \<Rightarrow> bool" where
  "media_not_null m = (media_url m \<noteq> JNull)"

definition valid_types :: "string list" where
  "valid_types = [''red-flag'', ''intervention'', ''incident'', ''complaint'', ''suggestion'',
                  ''emergency'']"

definition str_of :: "jval \<Rightarrow> string" where
  "str_of v = (case v of JStr s \<Rightarrow> s | _ \<Rightarrow> [])"

section \<open>Helpers of routes.py\<close>

definition create_status_history ::
  "nat \<Rightarrow> nat \<Rightarrow> string \<Rightarrow> string \<Rightarrow> nat option \<Rightarrow> jval \<Rightarrow> database \<Rightarrow> database" where
  "create_status_history now record_id old new admin_id reason db =
     db\<lparr> status_history := status_history db @
            [\<lparr> hist_id = next_history_id db, hist_record_id = record_id, old_status = old,
               new_status = new, changed_by = admin_id, change_reason = reason,
               changed_at = now \<rparr>],
         next_history_id := Suc (next_history_id db) \<rparr>"

text \<open>
  \<^verbatim>\<open>update_vote_count\<close>: counts the vote rows of the record (the session flushes the
  pending insert, update or delete before the query) and writes the count to the record
  if it exists.
\<close>

definition update_vote_count :: "nat \<Rightarrow> database \<Rightarrow> nat \<times> database" where
  "update_vote_count record_id db =
     (let vote_count' = length (filter (\<lambda>v. vote_record_id v = record_id) (votes db))
      in case records db record_id of
           None \<Rightarrow> (vote_count', db)
         | Some record \<Rightarrow>
             (vote_count', db\<lparr> records := (records db)(record_id \<mapsto> record\<lparr>vote_count := vote_count'\<rparr>) \<rparr>))"

section \<open>Record creation (routes.py)\<close>

text \<open>Decimal rendering of an id inside an f-string.\<close>

fun show_nat_aux :: "nat \<Rightarrow> nat \<Rightarrow> string" where
  "show_nat_aux 0 n = []"
| "show_nat_aux (Suc fuel) n =
     (if n < 10 then [''0123456789'' ! n]
      else show_nat_aux fuel (n div 10) @ [''0123456789'' ! (n mod 10)])"

definition show_nat :: "nat \<Rightarrow> string" where
  "show_nat n = show_nat_aux (Suc n) n"

definition new_media :: "database \<Rightarrow> nat \<Rightarrow> nat \<Rightarrow> jval \<Rightarrow> jval \<Rightarrow> media_row" where
  "new_media db now record_id img vid =
     \<lparr> media_id = next_media_id db, media_record_id = record_id,
       media_type = (if truthy img then ''image'' else ''video''),
       media_url = py_or img vid, filename = JNull, file_size = JNull,
       uploaded_at = now, image_url = img, video_url = vid \<rparr>"

definition add_media :: "media_row \<Rightarrow> database \<Rightarrow> database" where
  "add_media m db = db\<lparr> media := media db @ [m], next_media_id := Suc (next_media_id db) \<rparr>"

definition add_record :: "record_row \<Rightarrow> database \<Rightarrow> database" where
  "add_record r db =
     db\<lparr> records := (records db)(next_record_id db \<mapsto> r),
         next_record_id := Suc (next_record_id db) \<rparr>"

text \<open>
  \<^verbatim>\<open>anonymous_report\<close> (POST /public/report, no authentication). \<open>uuid\<close> is the random
  part \<^verbatim>\<open>uuid4().hex[:8].upper()\<close> of the tracking token, \<open>now\<close> the clock. The handler
  calls neither \<^verbatim>\<open>validate_coordinates\<close> nor \<^verbatim>\<open>validate_media_url\<close>.
\<close>

definition anonymous_report :: "string \<Rightarrow> nat \<Rightarrow> jdict \<Rightarrow> database \<Rightarrow> response \<times> database" where
  "anonymous_report uuid now data db =
     (if \<not> truthy (dict_get data ''title'') \<or> \<not> truthy (dict_get data ''description'')
      then (error_response ''Title and description are required'' 400, db)
      else if dict_get data ''type'' \<notin> set (map JStr valid_types)
      then (error_response
              ''Type must be one of: red-flag, intervention, incident, complaint, suggestion, emergency''
              400, db)
      else
        let new_record =
              \<lparr> rec_type = dict_get data ''type'',
                title = dict_get data ''title'',
                description = dict_get data ''description'',
                status = ''under-investigation'',
                latitude = dict_get data ''latitude'',
                longitude = dict_get data ''longitude'',
                location_name = dict_get data ''location_name'',
                created_at = now, updated_at = now,
                resolution_notes = JNull,
                is_anonymous = True,
                vote_count = 0,
                urgency_level = dict_get_default data ''urgency_level'' (JStr ''medium''),
                normal_user_id = None,
                assigned_admin_id = None \<rparr>;
            new_id = next_record_id db;
            db1 = add_record new_record db;
            db2 = (if truthy (dict_get data ''image_url'') \<or> truthy (dict_get data ''video_url'')
                   then add_media (new_media db1 now new_id (dict_get data ''image_url'')
                                     (dict_get data ''video_url'')) db1
                   else db1)
        in ((JObj [(''message'', JStr ''Anonymous report submitted successfully''),
                   (''tracking_token'', JStr (''ANON-'' @ show_nat new_id @ ''-'' @ uuid)),
                   (''record_id'', JNum (of_nat new_id)),
                   (''record'', JObj (to_public_dict db2 new_id new_record))], 201), db2))"

text \<open>
  \<^verbatim>\<open>create_record\<close> (POST /records). An unknown type is replaced by \<^verbatim>\<open>'red-flag'\<close>.
  A \<^verbatim>\<open>description\<close> that is present and null reaches the flush and fails there. After
  the commit the handler reads the user row for the confirmation mail; a missing row
  raises there, answered with 500 although the record is stored.
\<close>

definition create_record ::
  "pylib \<Rightarrow> nat \<Rightarrow> identity \<Rightarrow> jdict \<Rightarrow> database \<Rightarrow> response \<times> database" where
  "create_record lib now identity data0 db =
     (if role identity \<noteq> ''user''
      then (error_response ''Only users can create records'' 403, db)
      else if \<not> truthy (dict_get data0 ''title'')
      then (error_response ''Title is required'' 400, db)
      else
        let data = (if dict_get data0 ''type'' \<notin> set (map JStr valid_types)
                    then dict_set data0 ''type'' (JStr ''red-flag'') else data0)
        in
        if (dict_get data ''latitude'' \<noteq> JNull \<or> dict_get data ''longitude'' \<noteq> JNull)
           \<and> \<not> validate_coordinates lib (dict_get data ''latitude'') (dict_get data ''longitude'')
        then (error_response ''Invalid coordinates provided'' 400, db)
        else
          let img = dict_get data ''image_url'';
              vid = dict_get data ''video_url''
          in
          if truthy img \<and> \<not> validate_media_url lib img ''image''
          then (error_response ''Invalid image URL format'' 400, db)
          else if truthy vid \<and> \<not> validate_media_url lib vid ''video''
          then (error_response ''Invalid video URL format'' 400, db)
          else
            let new_record =
                  \<lparr> rec_type = dict_get_default data ''type'' (JStr ''red-flag''),
                    title = dict_get data ''title'',
                    description = dict_get_default data ''description'' (JStr []),
                    status = ''draft'',
                    latitude = dict_get data ''latitude'',
                    longitude = dict_get data ''longitude'',
                    location_name = dict_get data ''location_name'',
                    created_at = now, updated_at = now,
                    resolution_notes = JNull,
                    is_anonymous = False,
                    vote_count = 0,
                    urgency_level = dict_get_default data ''urgency_level'' (JStr ''medium''),
                    normal_user_id = Some (ident_id identity),
                    assigned_admin_id = None \<rparr>
            in
            if \<not> record_not_null new_record
            then (error_response ''Failed to create record'' 500, db)
            else
              let new_id = next_record_id db;
                  db1 = add_record new_record db;
                  db2 = (if truthy img \<or> truthy vid
                         then add_media (new_media db1 now new_id img vid) db1
                         else db1)
              in case normal_users db2 (ident_id identity) of
                   None \<Rightarrow> (error_response ''Failed to create record'' 500, db2)
                 | Some user \<Rightarrow>
                     ((JObj [(''message'', JStr ''Record created successfully''),
                             (''record'', JObj (to_dict db2 new_id new_record))], 201), db2))"

section \<open>Owner update and delete (routes.py)\<close>

text \<open>
  Both handlers call \<^verbatim>\<open>Record.query.get_or_404(id)\<close> inside their \<^verbatim>\<open>try\<close> block. For
  an absent record it raises the HTTP exception \<^verbatim>\<open>NotFound\<close>, which is an
  \<^verbatim>\<open>Exception\<close>: the handler's own \<^verbatim>\<open>except Exception\<close> catches it, rolls back and
  answers 500.
\<close>

definition apply_patch :: "jdict \<Rightarrow> record_row \<Rightarrow> record_row" where
  "apply_patch data r =
     (let r1 = (if dict_has data ''title'' then r\<lparr>title := dict_get data ''title''\<rparr> else r);
          r2 = (if dict_has data ''description''
                then r1\<lparr>description := dict_get data ''description''\<rparr> else r1);
          r3 = (if dict_has data ''type'' then r2\<lparr>rec_type := dict_get data ''type''\<rparr> else r2);
          r4 = (if dict_has data ''latitude''
                then r3\<lparr>latitude := dict_get data ''latitude''\<rparr> else r3);
          r5 = (if dict_has data ''longitude''
                then r4\<lparr>longitude := dict_get data ''longitude''\<rparr> else r4);
          r6 = (if dict_has data ''location_name''
                then r5\<lparr>location_name := dict_get data ''location_name''\<rparr> else r5);
          r7 = (if dict_has data ''urgency_level''
                then r6\<lparr>urgency_level := dict_get data ''urgency_level''\<rparr> else r6)
      in r7)"

text \<open>
  The media part of the update: the first media row of the record is rewritten, or a new
  row is added. The result is the row written (for the not-null check of the flush) and
  the new table.
\<close>

definition patch_media :: "nat \<Rightarrow> nat \<Rightarrow> jdict \<Rightarrow> database \<Rightarrow> media_row option \<times> database" where
  "patch_media now record_id data db =
     (if dict_has data ''image_url'' \<or> dict_has data ''video_url''
      then (case find (\<lambda>m. media_record_id m = record_id) (media db) of
              Some m \<Rightarrow>
                (let m1 = (if dict_has data ''image_url''
                           then m\<lparr>image_url := dict_get data ''image_url''\<rparr> else m);
                     m2 = (if dict_has data ''video_url''
                           then m1\<lparr>video_url := dict_get data ''video_url''\<rparr> else m1);
                     m3 = m2\<lparr>media_url := py_or (dict_get data ''image_url'')
                                                (dict_get data ''video_url'')\<rparr>
                 in (Some m3,
                     db\<lparr> media := update_first (\<lambda>m. media_record_id m = record_id)
                                      (\<lambda>_. m3) (media db) \<rparr>))
            | None \<Rightarrow>
                (let m = new_media db now record_id (dict_get data ''image_url'')
                           (dict_get data ''video_url'')
                 in (Some m, add_media m db)))
      else (None, db))"

definition update_record ::
  "pylib \<Rightarrow> nat \<Rightarrow> identity \<Rightarrow> nat \<Rightarrow> jdict \<Rightarrow> database \<Rightarrow> response \<times> database" where
  "update_record lib now identity rid data db =
     (case records db rid of
        None \<Rightarrow> (error_response ''Failed to update record'' 500, db)
      | Some record \<Rightarrow>
          if role identity \<noteq> ''user'' \<or> normal_user_id record \<noteq> Some (ident_id identity)
          then (error_response ''Unauthorized'' 403, db)
          else if status record \<noteq> ''draft''
          then (error_response ''Only draft records can be edited'' 400, db)
          else if (dict_has data ''latitude'' \<or> dict_has data ''longitude'')
                  \<and> (let lat = dict_get_default data ''latitude'' (latitude record);
                          lng = dict_get_default data ''longitude'' (longitude record)
                      in (lat \<noteq> JNull \<or> lng \<noteq> JNull) \<and> \<not> validate_coordinates lib lat lng)
          then (error_response ''Invalid coordinates'' 400, db)
          else if dict_has data ''image_url'' \<and> truthy (dict_get data ''image_url'')
                  \<and> \<not> validate_media_url lib (dict_get data ''image_url'') ''image''
          then (error_response ''Invalid image URL'' 400, db)
          else if dict_has data ''video_url'' \<and> truthy (dict_get data ''video_url'')
                  \<and> \<not> validate_media_url lib (dict_get data ''video_url'') ''video''
          then (error_response ''Invalid video URL'' 400, db)
          else
            let record' = (apply_patch data record)\<lparr>updated_at := now\<rparr>;
                db1 = db\<lparr> records := (records db)(rid \<mapsto> record') \<rparr>;
                (written, db2) = patch_media now rid data db1
            in if \<not> record_not_null record'
                  \<or> (case written of None \<Rightarrow> False | Some m \<Rightarrow> \<not> media_not_null m)
               then (error_response ''Failed to update record'' 500, db)
               else ((JObj [(''message'', JStr ''Record updated successfully''),
                            (''record'', JObj (to_dict db2 rid record'))], 200), db2))"

text \<open>\<^verbatim>\<open>delete_record\<close>: the relationships cascade the delete to media, votes and history.\<close>

definition delete_record :: "identity \<Rightarrow> nat \<Rightarrow> database \<Rightarrow> response \<times> database" where
  "delete_record identity rid db =
     (case records db rid of
        None \<Rightarrow> (error_response ''Failed to delete record'' 500, db)
      | Some record \<Rightarrow>
          if role identity \<noteq> ''user'' \<or> normal_user_id record \<noteq> Some (ident_id identity)
          then (error_response ''Unauthorized'' 403, db)
          else if status record \<noteq> ''draft''
          then (error_response ''Only draft records can be deleted'' 400, db)
          else ((JObj [(''message'', JStr ''Record deleted successfully'')], 200),
                db\<lparr> records := (records db)(rid := None),
                    media := filter (\<lambda>m. media_record_id m \<noteq> rid) (media db),
                    votes := filter (\<lambda>v. vote_record_id v \<noteq> rid) (votes db),
                    status_history := filter (\<lambda>h. hist_record_id h \<noteq> rid) (status_history db) \<rparr>))"

section \<open>Voting (routes.py)\<close>

text \<open>
  \<^verbatim>\<open>vote_record\<close> (POST /records/id/vote). The row that
  \<^verbatim>\<open>filter_by(record_id, user_id).first()\<close> returns is rewritten in place; only when
  there is none, a row is added. An absent record makes \<^verbatim>\<open>get_or_404\<close> raise inside
  the \<^verbatim>\<open>try\<close> block, answered with 500.
\<close>

definition vote_record ::
  "nat \<Rightarrow> identity \<Rightarrow> nat \<Rightarrow> jdict \<Rightarrow> database \<Rightarrow> response \<times> database" where
  "vote_record now identity record_id data db =
     (if role identity \<noteq> ''user''
      then (error_response ''Only users can vote'' 403, db)
      else
        let vt = dict_get_default data ''vote_type'' (JStr ''support'')
        in
        if vt \<notin> set [JStr ''support'', JStr ''urgent'']
        then (error_response ''Vote type must be \"support\" or \"urgent\"'' 400, db)
        else
          case records db record_id of
            None \<Rightarrow> (error_response ''Failed to vote on record'' 500, db)
          | Some record \<Rightarrow>
              let mine = (\<lambda>v. vote_record_id v = record_id \<and> vote_user_id v = ident_id identity);
                  (message, db1) =
                    (case find mine (votes db) of
                       Some existing_vote \<Rightarrow>
                         (''Vote updated successfully'',
                          db\<lparr> votes := update_first mine (\<lambda>v. v\<lparr>vote_type := vt\<rparr>) (votes db) \<rparr>)
                     | None \<Rightarrow>
                         (''Vote added successfully'',
                          db\<lparr> votes := votes db @
                                 [\<lparr> vote_id = next_vote_id db, vote_record_id = record_id,
                                    vote_user_id = ident_id identity, vote_type = vt,
                                    vote_created_at = now \<rparr>],
                              next_vote_id := Suc (next_vote_id db) \<rparr>));
                  (count, db2) = update_vote_count record_id db1
              in ((JObj [(''message'', JStr message),
                         (''vote_count'', JNum (of_nat count)),
                         (''user_vote'', vt)], 200), db2))"

text \<open>\<^verbatim>\<open>remove_vote\<close> (DELETE /records/id/vote): deletes the row found.\<close>

definition remove_vote :: "identity \<Rightarrow> nat \<Rightarrow> database \<Rightarrow> response \<times> database" where
  "remove_vote identity record_id db =
     (if role identity \<noteq> ''user''
      then (error_response ''Only users can remove votes'' 403, db)
      else
        case find (\<lambda>v. vote_record_id v = record_id \<and> vote_user_id v = ident_id identity)
               (votes db) of
          None \<Rightarrow> (error_response ''No vote found to remove'' 404, db)
        | Some vote \<Rightarrow>
            let db1 = db\<lparr> votes := remove1 vote (votes db) \<rparr>;
                (count, db2) = update_vote_count record_id db1
            in ((JObj [(''message'', JStr ''Vote removed successfully''),
                       (''vote_count'', JNum (of_nat count))], 200), db2))"

text \<open>A vote request, and a sequence of them run one after the other.\<close>

datatype vote_op =
    Cast nat identity nat jdict
  | Retract identity nat

fun vote_step :: "vote_op \<Rightarrow> database \<Rightarrow> database" where
  "vote_step (Cast now identity record_id data) db = snd (vote_record now identity record_id data db)"
| "vote_step (Retract identity record_id) db = snd (remove_vote identity record_id db)"

definition run_votes :: "vote_op list \<Rightarrow> database \<Rightarrow> database" where
  "run_votes ops db = foldl (\<lambda>d op. vote_step op d) db ops"

text \<open>The vote rows of a record, and those of a (record, user) pair.\<close>

definition votes_of :: "database \<Rightarrow> nat \<Rightarrow> vote_row list" where
  "votes_of db record_id = filter (\<lambda>v. vote_record_id v = record_id) (votes db)"

definition votes_of_pair :: "database \<Rightarrow> nat \<Rightarrow> nat \<Rightarrow> vote_row list" where
  "votes_of_pair db record_id user =
     filter (\<lambda>v. vote_record_id v = record_id \<and> vote_user_id v = user) (votes db)"

text \<open>The cached count of every record is the number of its vote rows.\<close>

definition vote_counts_exact :: "database \<Rightarrow> bool" where
  "vote_counts_exact db =
     (\<forall>i r. records db i = Some r \<longrightarrow> vote_count r = length (votes_of db i))"

text \<open>The unique constraint \<^verbatim>\<open>unique_user_vote\<close> of the votes table.\<close>

definition unique_user_vote :: "database \<Rightarrow> bool" where
  "unique_user_vote db = distinct (map (\<lambda>v. (vote_record_id v, vote_user_id v)) (votes db))"

section \<open>Status transitions (routes.py)\<close>

text \<open>
  \<^verbatim>\<open>update_status\<close> (PATCH /records/id/status). The handler compares the requested
  status with the three allowed names and never reads the current status before it
  overwrites it. \<^verbatim>\<open>if not record.assigned_admin_id\<close> is Python truthiness: the column is
  free when it is null or 0. The notifications after the commit catch their own
  failures and change no table.
\<close>

definition allowed_statuses :: "string list" where
  "allowed_statuses = [''under-investigation'', ''rejected'', ''resolved'']"

definition admin_unassigned :: "nat option \<Rightarrow> bool" where
  "admin_unassigned a = (case a of None \<Rightarrow> True | Some n \<Rightarrow> n = 0)"

definition update_status ::
  "nat \<Rightarrow> identity \<Rightarrow> nat \<Rightarrow> jdict \<Rightarrow> database \<Rightarrow> response \<times> database" where
  "update_status now identity rid data db =
     (if role identity \<noteq> ''admin''
      then (error_response ''Only admins can update status'' 403, db)
      else
        case records db rid of
          None \<Rightarrow> (error_response ''Status update failed'' 500, db)
        | Some record \<Rightarrow>
            let requested = dict_get data ''status'';
                reason = dict_get_default data ''reason'' (JStr [])
            in
            if requested \<notin> set (map JStr allowed_statuses)
            then (error_response ''Invalid status'' 400, db)
            else
              let old = status record;
                  r1 = record\<lparr> status := str_of requested, updated_at := now \<rparr>;
                  r2 = (if truthy (dict_get data ''resolution_notes'')
                        then r1\<lparr> resolution_notes := dict_get data ''resolution_notes'' \<rparr>
                        else r1);
                  r3 = (if admin_unassigned (assigned_admin_id r2)
                        then r2\<lparr> assigned_admin_id := Some (ident_id identity) \<rparr>
                        else r2);
                  db1 = db\<lparr> records := (records db)(rid \<mapsto> r3) \<rparr>;
                  db2 = create_status_history now rid old (str_of requested)
                          (Some (ident_id identity)) reason db1
              in ((JObj [(''message'', JStr (''Status updated to '' @ str_of requested)),
                         (''record'', JObj (to_dict db2 rid r3))], 200), db2))"

text \<open>A sequence of status requests, each by some caller with some body.\<close>

fun run_status :: "(nat \<times> identity \<times> nat \<times> jdict) list \<Rightarrow> database \<Rightarrow> database" where
  "run_status [] db = db"
| "run_status ((now, identity, rid, data) # reqs) db =
     run_status reqs (snd (update_status now identity rid data db))"

section \<open>Public list view (routes.py)\<close>

text \<open>
  \<^verbatim>\<open>get_public_records\<close> starts from the rows whose status is not \<^verbatim>\<open>'draft'\<close> and
  builds its list as \<^verbatim>\<open>[r.to_public_dict() for r in paginated_records.items]\<close>. The
  optional filters, the search, the ordering and the pagination run in the database
  library; \<open>items\<close> are the keys of the rows they select for the page.
\<close>

definition public_records :: "database \<Rightarrow> nat list \<Rightarrow> jdict list" where
  "public_records db items =
     concat (map (\<lambda>i. case records db i of
                         None \<Rightarrow> []
                       | Some r \<Rightarrow> if status r \<noteq> ''draft'' then [to_public_dict db i r] else [])
                 items)"

section \<open>A small database for examples\<close>

definition example_record :: record_row where
  "example_record =
     \<lparr> rec_type = JStr ''red-flag'', title = JStr ''Bribe at checkpoint'',
       description = JStr ''Officer asked for money'', status = ''draft'',
       latitude = JNull, longitude = JNull, location_name = JNull,
       created_at = 0, updated_at = 0, resolution_notes = JNull, is_anonymous = False,
       vote_count = 0, urgency_level = JStr ''medium'', normal_user_id = Some 1,
       assigned_admin_id = None \<rparr>"

definition example_db :: database where
  "example_db =
     \<lparr> records = [7 \<mapsto> example_record], media = [], votes = [], status_history = [],
       normal_users = [1 \<mapsto> \<lparr> user_name = ''Amina'', user_email = ''amina@gmail.com'',
                              phone_number = None \<rparr>],
       next_record_id = 8, next_media_id = 1, next_vote_id = 1, next_history_id = 1 \<rparr>"

definition user :: "nat \<Rightarrow> identity" where
  "user n = \<lparr> ident_id = n, role = ''user'' \<rparr>"

definition admin :: "nat \<Rightarrow> identity" where
  "admin n = \<lparr> ident_id = n, role = ''admin'' \<rparr>"

definition example_votes :: "vote_op list" where
  "example_votes =
     [Cast 10 (user 5) 7 [(''vote_type'', JStr ''support'')],
      Cast 11 (user 5) 7 [(''vote_type'', JStr ''urgent'')],
      Cast 12 (user 6) 7 [],
      Retract (user 5) 7]"

definition resolved_db :: database where
  "resolved_db = example_db\<lparr> records := [7 \<mapsto> example_record\<lparr> status := ''resolved'' \<rparr>] \<rparr>"

definition later_requests :: "(nat \<times> identity \<times> nat \<times> jdict) list" where
  "later_requests =
     [(21, admin 4, 7, [(''status'', JStr ''resolved'')]),
      (22, admin 5, 7, [(''status'', JStr ''rejected''), (''reason'', JStr ''duplicate'')])]"

definition checkpoint_report :: jdict where
  "checkpoint_report =
     [(''title'', JStr ''Bribe at checkpoint''), (''description'', JStr ''Officer asked for money''),
      (''type'', JStr ''red-flag'')]"

definition bad_report :: jdict where
  "bad_report =
     [(''title'', JStr ''Pothole''), (''description'', JStr ''Main road''),
      (''type'', JStr ''intervention''), (''latitude'', JNum 999), (''longitude'', JNum 0),
      (''image_url'', JStr ''ftp://example.org/run.exe'')]"

section \<open>Pagination: properties\<close>





section \<open>Voting: properties\<close>

lemmas example_simps = example_db_def example_record_def example_votes_def user_def admin_def

lemma update_first_length_filter:
  "(\<And>x. Q (f x) = Q x) \<Longrightarrow> length (filter Q (update_first P f xs)) = length (filter Q xs)"
  by (induction xs) auto

lemma update_first_map_key:
  "(\<And>x. key (f x) = key x) \<Longrightarrow> map key (update_first P f xs) = map key xs"
  by (induction xs) auto

lemma update_first_length: "length (update_first P f xs) = length xs"
  by (induction xs) auto

lemma filter_update_first_same:
  "(\<And>x. P x \<Longrightarrow> P (f x)) \<Longrightarrow>
   filter P (update_first P f xs) = (case filter P xs of [] \<Rightarrow> [] | y # ys \<Rightarrow> f y # ys)"
  by (induction xs) auto

lemma filter_remove1_other: "\<not> Q v \<Longrightarrow> filter Q (remove1 v xs) = filter Q xs"
  by (induction xs) auto

lemma find_Some_holds: "find P xs = Some x \<Longrightarrow> P x"
  by (induction xs) (auto split: if_splits)

lemma update_vote_count_votes [simp]: "votes (snd (update_vote_count rid db)) = votes db"
  by (simp add: update_vote_count_def Let_def split: option.splits)

text \<open>
  Recounting one record restores exactness everywhere, once the other records are exact.
\<close>

lemma update_vote_count_exact:
  assumes "\<forall>i r. i \<noteq> rid \<and> records db i = Some r \<longrightarrow> vote_count r = length (votes_of db i)"
  shows "vote_counts_exact (snd (update_vote_count rid db))"
proof (cases "records db rid")
  case None
  with assms show ?thesis
    by (simp add: vote_counts_exact_def update_vote_count_def Let_def) (metis option.distinct)
next
  case (Some row)
  with assms show ?thesis
    by (simp add: vote_counts_exact_def update_vote_count_def votes_of_def Let_def)
qed

lemma vote_record_exact:
  assumes "vote_counts_exact db"
  shows "vote_counts_exact (snd (vote_record now ident rid data db))"
proof -
  let ?mine = "\<lambda>v. vote_record_id v = rid \<and> vote_user_id v = ident_id ident"
  let ?vt = "dict_get_default data ''vote_type'' (JStr ''support'')"
  let ?upd = "db\<lparr> votes := update_first ?mine (\<lambda>v. v\<lparr>vote_type := ?vt\<rparr>) (votes db) \<rparr>"
  let ?add = "db\<lparr> votes := votes db @
                 [\<lparr> vote_id = next_vote_id db, vote_record_id = rid,
                    vote_user_id = ident_id ident, vote_type = ?vt,
                    vote_created_at = now \<rparr>],
              next_vote_id := Suc (next_vote_id db) \<rparr>"
  have u: "vote_counts_exact (snd (update_vote_count rid ?upd))"
    using assms
    by (intro update_vote_count_exact)
       (auto simp: vote_counts_exact_def votes_of_def update_first_length_filter)
  have a: "vote_counts_exact (snd (update_vote_count rid ?add))"
    using assms
    by (intro update_vote_count_exact) (auto simp: vote_counts_exact_def votes_of_def)
  show ?thesis
    using assms u a
    by (auto simp: vote_record_def Let_def split: option.splits prod.splits)
qed

lemma remove_vote_exact:
  assumes "vote_counts_exact db"
  shows "vote_counts_exact (snd (remove_vote ident rid db))"
proof (cases "find (\<lambda>v. vote_record_id v = rid \<and> vote_user_id v = ident_id ident) (votes db)")
  case None
  then show ?thesis using assms by (simp add: remove_vote_def)
next
  case (Some vote)
  then have v: "vote_record_id vote = rid" by (auto dest: find_Some_holds)
  have "vote_counts_exact (snd (update_vote_count rid (db\<lparr> votes := remove1 vote (votes db) \<rparr>)))"
    using assms v
    by (intro update_vote_count_exact)
       (auto simp: vote_counts_exact_def votes_of_def filter_remove1_other)
  then show ?thesis using assms Some
    by (auto simp: remove_vote_def Let_def split: prod.splits)
qed

lemma vote_step_exact: "vote_counts_exact db \<Longrightarrow> vote_counts_exact (vote_step op db)"
  by (cases op) (simp_all add: vote_record_exact remove_vote_exact)

lemma run_votes_exact: "vote_counts_exact db \<Longrightarrow> vote_counts_exact (run_votes ops db)"
  unfolding run_votes_def
  by (induction ops arbitrary: db) (simp_all add: vote_step_exact)

text \<open>
  C2: starting from a database whose cached counts are exact (as they are when no vote
  has been cast yet), after any sequence of cast and retract requests, by any callers on
  any records and whether each request succeeds or is refused, the \<open>vote_count\<close> of
  every record is the number of vote rows whose \<open>record_id\<close> names it, whatever their
  \<open>vote_type\<close>.
\<close>

theorem vote_count_is_row_count:
  assumes "vote_counts_exact db"
  shows "\<forall>i r. records (run_votes ops db) i = Some r \<longrightarrow>
           vote_count r
             = length (filter (\<lambda>v. vote_record_id v = i) (votes (run_votes ops db)))"
  using run_votes_exact [OF assms, of ops]
  by (simp add: vote_counts_exact_def votes_of_def)

theorem vote_count_is_row_count_witness:
  "vote_counts_exact example_db
   \<and> map_option vote_count (records (run_votes example_votes example_db) 7) = Some 1
   \<and> length (filter (\<lambda>v. vote_record_id v = 7) (votes (run_votes example_votes example_db))) = 1"
proof -
  have h: "vote_counts_exact example_db"
    by (simp add: vote_counts_exact_def votes_of_def example_simps)
  have r: "records (run_votes example_votes example_db) 7 \<noteq> None"
    by (simp add: run_votes_def vote_record_def remove_vote_def update_vote_count_def
        dict_get_default_def Let_def example_simps)
  have n: "length (filter (\<lambda>v. vote_record_id v = 7)
             (votes (run_votes example_votes example_db))) = 1"
    by (simp add: run_votes_def vote_record_def remove_vote_def update_vote_count_def
        dict_get_default_def Let_def example_simps)
  from r obtain row where row: "records (run_votes example_votes example_db) 7 = Some row"
    by blast
  from vote_count_is_row_count [OF h, of example_votes] row n
  have "vote_count row = 1" by simp
  with h row n show ?thesis by simp
qed

lemma distinct_key_filter_le1:
  "distinct (map key xs) \<Longrightarrow> length (filter (\<lambda>v. key v = k) xs) \<le> 1"
  by (induction xs) (auto simp: filter_empty_conv image_iff)

lemma distinct_map_remove1: "distinct (map key xs) \<Longrightarrow> distinct (map key (remove1 v xs))"
  by (induction xs) (auto simp: image_iff dest: notin_set_remove1)

lemma find_None_iff_pair: "find P xs = None \<longleftrightarrow> (\<forall>x\<in>set xs. \<not> P x)"
  by (induction xs) auto

lemma vote_record_unique:
  assumes "unique_user_vote db"
  shows "unique_user_vote (snd (vote_record now ident rid data db))"
proof -
  let ?mine = "\<lambda>v. vote_record_id v = rid \<and> vote_user_id v = ident_id ident"
  have new: "find ?mine (votes db) = None \<Longrightarrow>
        (rid, ident_id ident) \<notin> set (map (\<lambda>v. (vote_record_id v, vote_user_id v)) (votes db))"
    by (auto simp: find_None_iff_pair)
  show ?thesis using assms new
    by (auto simp: vote_record_def unique_user_vote_def Let_def update_first_map_key
             case_prod_beta split: option.splits)
qed

lemma remove_vote_unique:
  assumes "unique_user_vote db"
  shows "unique_user_vote (snd (remove_vote ident rid db))"
  using assms
  by (auto simp: remove_vote_def unique_user_vote_def Let_def distinct_map_remove1
           case_prod_beta split: option.splits)

lemma vote_step_unique: "unique_user_vote db \<Longrightarrow> unique_user_vote (vote_step op db)"
  by (cases op) (simp_all add: vote_record_unique remove_vote_unique)

lemma run_votes_unique: "unique_user_vote db \<Longrightarrow> unique_user_vote (run_votes ops db)"
  unfolding run_votes_def
  by (induction ops arbitrary: db) (simp_all add: vote_step_unique)

lemma votes_of_pair_le1:
  "unique_user_vote db \<Longrightarrow> length (votes_of_pair db rid uid) \<le> 1"
proof -
  assume "unique_user_vote db"
  then have "length (filter (\<lambda>v. (vote_record_id v, vote_user_id v) = (rid, uid)) (votes db)) \<le> 1"
    unfolding unique_user_vote_def by (rule distinct_key_filter_le1)
  then show ?thesis by (simp add: votes_of_pair_def)
qed

lemma find_filter_hd: "find P xs = (case filter P xs of [] \<Rightarrow> None | y # _ \<Rightarrow> Some y)"
  by (induction xs) auto

lemma recast_in_place:
  assumes "votes_of_pair db rid (ident_id ident) = [v]"
    and "role ident = ''user''"
    and "dict_get_default data ''vote_type'' (JStr ''support'') \<in> {JStr ''support'', JStr ''urgent''}"
    and "records db rid \<noteq> None"
  shows "snd (fst (vote_record now ident rid data db)) = 200
         \<and> votes_of_pair (snd (vote_record now ident rid data db)) rid (ident_id ident)
           = [v\<lparr>vote_type := dict_get_default data ''vote_type'' (JStr ''support'')\<rparr>]
         \<and> length (votes (snd (vote_record now ident rid data db))) = length (votes db)"
proof -
  let ?mine = "\<lambda>v. vote_record_id v = rid \<and> vote_user_id v = ident_id ident"
  from assms(1) have f: "filter ?mine (votes db) = [v]" by (simp add: votes_of_pair_def)
  then have fd: "find ?mine (votes db) = Some v" by (simp add: find_filter_hd)
  have "filter ?mine (update_first ?mine (\<lambda>v. v\<lparr>vote_type := vt\<rparr>) (votes db)) = [v\<lparr>vote_type := vt\<rparr>]" for vt
    using f by (subst filter_update_first_same) auto
  then show ?thesis using assms(2,3,4) fd
    by (auto simp: vote_record_def Let_def votes_of_pair_def update_first_length
             case_prod_beta split: option.splits)
qed

text \<open>
  C3: the unique constraint on \<open>(record_id, user_id)\<close> is kept by every cast and retract,
  so no pair ever has more than one vote row; and when a user who already has a row on a
  record casts again with a valid type, the request succeeds, that row's \<open>vote_type\<close> is
  overwritten in place and the table holds as many rows as before.
\<close>

theorem one_vote_row_per_pair:
  assumes "unique_user_vote db"
  shows "(\<forall>rid uid. length (votes_of_pair (run_votes ops db) rid uid) \<le> 1)
     \<and> (\<forall>now ident rid data v.
          votes_of_pair (run_votes ops db) rid (ident_id ident) = [v]
          \<and> role ident = ''user''
          \<and> dict_get_default data ''vote_type'' (JStr ''support'') \<in> {JStr ''support'', JStr ''urgent''}
          \<and> records (run_votes ops db) rid \<noteq> None \<longrightarrow>
          snd (fst (vote_record now ident rid data (run_votes ops db))) = 200
          \<and> votes_of_pair (snd (vote_record now ident rid data (run_votes ops db))) rid (ident_id ident)
              = [v\<lparr>vote_type := dict_get_default data ''vote_type'' (JStr ''support'')\<rparr>]
          \<and> length (votes (snd (vote_record now ident rid data (run_votes ops db))))
              = length (votes (run_votes ops db)))"
proof (intro conjI allI impI)
  fix rid uid
  show "length (votes_of_pair (run_votes ops db) rid uid) \<le> 1"
    using run_votes_unique [OF assms] by (rule votes_of_pair_le1)
next
  fix now and ident :: identity and rid data v
  assume a: "votes_of_pair (run_votes ops db) rid (ident_id ident) = [v]
          \<and> role ident = ''user''
          \<and> dict_get_default data ''vote_type'' (JStr ''support'') \<in> {JStr ''support'', JStr ''urgent''}
          \<and> records (run_votes ops db) rid \<noteq> None"
  then have r: "snd (fst (vote_record now ident rid data (run_votes ops db))) = 200
         \<and> votes_of_pair (snd (vote_record now ident rid data (run_votes ops db))) rid (ident_id ident)
           = [v\<lparr>vote_type := dict_get_default data ''vote_type'' (JStr ''support'')\<rparr>]
         \<and> length (votes (snd (vote_record now ident rid data (run_votes ops db))))
             = length (votes (run_votes ops db))"
    by (intro recast_in_place) simp_all
  from r show "snd (fst (vote_record now ident rid data (run_votes ops db))) = 200" by simp
  from r show "votes_of_pair (snd (vote_record now ident rid data (run_votes ops db))) rid (ident_id ident)
           = [v\<lparr>vote_type := dict_get_default data ''vote_type'' (JStr ''support'')\<rparr>]" by simp
  from r show "length (votes (snd (vote_record now ident rid data (run_votes ops db))))
             = length (votes (run_votes ops db))" by simp
qed

theorem one_vote_row_per_pair_witness:
  "unique_user_vote example_db
   \<and> votes_of_pair (run_votes [Cast 10 (user 5) 7 [(''vote_type'', JStr ''support'')]] example_db) 7 5
       = [\<lparr> vote_id = 1, vote_record_id = 7, vote_user_id = 5, vote_type = JStr ''support'',
            vote_created_at = 10 \<rparr>]
   \<and> snd (fst (vote_record 11 (user 5) 7 [(''vote_type'', JStr ''urgent'')]
         (run_votes [Cast 10 (user 5) 7 [(''vote_type'', JStr ''support'')]] example_db))) = 200
   \<and> votes_of_pair (snd (vote_record 11 (user 5) 7 [(''vote_type'', JStr ''urgent'')]
         (run_votes [Cast 10 (user 5) 7 [(''vote_type'', JStr ''support'')]] example_db))) 7 5
       = [\<lparr> vote_id = 1, vote_record_id = 7, vote_user_id = 5, vote_type = JStr ''urgent'',
            vote_created_at = 10 \<rparr>]"
proof -
  let ?ops = "[Cast 10 (user 5) 7 [(''vote_type'', JStr ''support'')]]"
  let ?v = "\<lparr> vote_id = 1, vote_record_id = 7, vote_user_id = 5, vote_type = JStr ''support'',
            vote_created_at = 10 \<rparr>"
  let ?data = "[(''vote_type'', JStr ''urgent'')]"
  have h: "unique_user_vote example_db"
    by (simp add: unique_user_vote_def example_simps)
  have p: "votes_of_pair (run_votes ?ops example_db) 7 (ident_id (user 5)) = [?v]"
    by (simp add: votes_of_pair_def run_votes_def vote_record_def update_vote_count_def
        dict_get_default_def Let_def example_simps)
  have q: "role (user 5) = ''user''
           \<and> dict_get_default ?data ''vote_type'' (JStr ''support'') \<in> {JStr ''support'', JStr ''urgent''}
           \<and> records (run_votes ?ops example_db) 7 \<noteq> None"
    by (simp add: run_votes_def vote_record_def update_vote_count_def
        dict_get_default_def Let_def example_simps)
  from one_vote_row_per_pair [OF h, of ?ops] p q
  have t: "snd (fst (vote_record 11 (user 5) 7 ?data (run_votes ?ops example_db))) = 200
     \<and> votes_of_pair (snd (vote_record 11 (user 5) 7 ?data (run_votes ?ops example_db))) 7
          (ident_id (user 5))
        = [?v\<lparr>vote_type := dict_get_default ?data ''vote_type'' (JStr ''support'')\<rparr>]"
    by blast
  have d: "dict_get_default ?data ''vote_type'' (JStr ''support'') = JStr ''urgent''"
    by (simp add: dict_get_default_def)
  have i: "ident_id (user 5) = 5" by (simp add: user_def)
  from h p t show ?thesis unfolding d i by simp
qed

section \<open>Status transitions: properties\<close>

lemmas status_simps = update_status_def create_status_history_def dict_get_def
  dict_get_default_def str_of_def admin_unassigned_def allowed_statuses_def Let_def

text \<open>
  C1, as stated: a transition requested on a record in a terminal state is rejected and
  leaves the status unchanged. The handler has no such guard: an admin's request moves
  a resolved record back to under-investigation.
\<close>

theorem terminal_transition_accepted:
  "map_option status (records resolved_db 7) = Some ''resolved''
   \<and> snd (fst (update_status 20 (admin 3) 7 [(''status'', JStr ''under-investigation'')] resolved_db)) = 200
   \<and> map_option status
        (records (snd (update_status 20 (admin 3) 7 [(''status'', JStr ''under-investigation'')]
           resolved_db)) 7) = Some ''under-investigation''"
  by (simp add: status_simps resolved_db_def example_simps)

text \<open>
  C1, amended: for an existing record and an admin caller, a request whose status is one
  of under-investigation, rejected, resolved is accepted whatever the record's current
  status (the terminal states included); the record takes the requested status and one
  history row from the old to the new status is appended. A request with any other
  status is refused with 400 and changes nothing.
\<close>

theorem update_status_unguarded:
  assumes "role ident = ''admin''" and "records db rid = Some r"
  shows "(\<forall>s. dict_get data ''status'' = JStr s \<and> s \<in> set allowed_statuses \<longrightarrow>
            snd (fst (update_status now ident rid data db)) = 200
            \<and> map_option status (records (snd (update_status now ident rid data db)) rid) = Some s
            \<and> status_history (snd (update_status now ident rid data db))
                = status_history db @
                  [\<lparr> hist_id = next_history_id db, hist_record_id = rid, old_status = status r,
                     new_status = s, changed_by = Some (ident_id ident),
                     change_reason = dict_get_default data ''reason'' (JStr []),
                     changed_at = now \<rparr>])
       \<and> (dict_get data ''status'' \<notin> JStr ` set allowed_statuses \<longrightarrow>
            update_status now ident rid data db = (error_response ''Invalid status'' 400, db))"
  using assms
  by (auto simp: update_status_def create_status_history_def str_of_def allowed_statuses_def Let_def)

theorem update_status_unguarded_witness:
  "role (admin 3) = ''admin''
   \<and> records resolved_db 7 = Some (example_record\<lparr> status := ''resolved'' \<rparr>)
   \<and> map_option status
        (records (snd (update_status 20 (admin 3) 7 [(''status'', JStr ''rejected'')] resolved_db)) 7)
       = Some ''rejected''
   \<and> update_status 20 (admin 3) 7 [(''status'', JStr ''draft'')] resolved_db
       = (error_response ''Invalid status'' 400, resolved_db)"
proof -
  have a: "role (admin 3) = ''admin''" by (simp add: admin_def)
  have b: "records resolved_db 7 = Some (example_record\<lparr> status := ''resolved'' \<rparr>)"
    by (simp add: resolved_db_def)
  have c: "dict_get [(''status'', JStr ''rejected'')] ''status'' = JStr ''rejected''
           \<and> ''rejected'' \<in> set allowed_statuses"
    by (simp add: dict_get_def allowed_statuses_def)
  have d: "dict_get [(''status'', JStr ''draft'')] ''status'' \<notin> JStr ` set allowed_statuses"
    by (simp add: dict_get_def allowed_statuses_def)
  from update_status_unguarded [OF a b, of "[(''status'', JStr ''rejected'')]" 20] c
  have 1: "map_option status
        (records (snd (update_status 20 (admin 3) 7 [(''status'', JStr ''rejected'')] resolved_db)) 7)
       = Some ''rejected''" by blast
  from update_status_unguarded [OF a b, of "[(''status'', JStr ''draft'')]" 20] d
  have 2: "update_status 20 (admin 3) 7 [(''status'', JStr ''draft'')] resolved_db
       = (error_response ''Invalid status'' 400, resolved_db)" by blast
  from a b 1 2 show ?thesis by simp
qed


lemma update_status_keeps_admin:
  assumes "records db rid = Some r" and "assigned_admin_id r = Some a" and "a \<noteq> 0"
  shows "\<exists>r'. records (snd (update_status now ident rid' data db)) rid = Some r'
              \<and> assigned_admin_id r' = Some a"
  using assms
  by (auto simp: update_status_def create_status_history_def admin_unassigned_def Let_def
           split: option.splits)

lemma run_status_keeps_admin:
  assumes "records db rid = Some r" and "assigned_admin_id r = Some a" and "a \<noteq> 0"
  shows "\<exists>r'. records (run_status reqs db) rid = Some r' \<and> assigned_admin_id r' = Some a"
  using assms
proof (induction reqs arbitrary: db r)
  case Nil
  then show ?case by simp
next
  case (Cons req reqs)
  obtain now ident rid' data where req: "req = (now, ident, rid', data)"
    by (cases req) auto
  from update_status_keeps_admin [OF Cons.prems, of now ident rid' data]
  obtain r' where "records (snd (update_status now ident rid' data db)) rid = Some r'"
    and "assigned_admin_id r' = Some a" by blast
  from Cons.IH [OF this Cons.prems(3)] show ?case by (simp add: req)
qed

lemma first_transition_assigns:
  assumes "role ident = ''admin''" and "records db rid = Some r"
    and "assigned_admin_id r = None"
    and "dict_get data ''status'' \<in> JStr ` set allowed_statuses"
  shows "\<exists>r'. records (snd (update_status now ident rid data db)) rid = Some r'
              \<and> assigned_admin_id r' = Some (ident_id ident)"
  using assms
  by (auto simp: update_status_def create_status_history_def admin_unassigned_def
           allowed_statuses_def Let_def)

text \<open>
  C7: the first accepted transition on a record whose \<open>assigned_admin_id\<close> is null
  sets it to the acting admin's id, and after any further sequence of status requests,
  by whichever admins and on whichever records, it still holds that id. Admin ids are
  positive (primary keys count from 1), which is what makes the Python truth test of the
  column a test for null.
\<close>

theorem assigned_admin_set_once:
  assumes "role ident = ''admin''" and "0 < ident_id ident"
    and "records db rid = Some r" and "assigned_admin_id r = None"
    and "dict_get data ''status'' \<in> JStr ` set allowed_statuses"
  shows "\<exists>r'. records (run_status reqs (snd (update_status now ident rid data db))) rid = Some r'
              \<and> assigned_admin_id r' = Some (ident_id ident)"
proof -
  from first_transition_assigns [OF assms(1,3,4,5), of now]
  obtain r1 where "records (snd (update_status now ident rid data db)) rid = Some r1"
    and "assigned_admin_id r1 = Some (ident_id ident)" by blast
  moreover from assms(2) have "ident_id ident \<noteq> 0" by simp
  ultimately show ?thesis by (rule run_status_keeps_admin)
qed

theorem assigned_admin_set_once_witness:
  "role (admin 3) = ''admin'' \<and> 0 < ident_id (admin 3)
   \<and> map_option assigned_admin_id (records example_db 7) = Some None
   \<and> map_option assigned_admin_id
        (records (run_status later_requests
           (snd (update_status 20 (admin 3) 7 [(''status'', JStr ''under-investigation'')] example_db))) 7)
       = Some (Some 3)"
proof -
  let ?data = "[(''status'', JStr ''under-investigation'')]"
  have a: "role (admin 3) = ''admin''" and p: "0 < ident_id (admin 3)" by (simp_all add: admin_def)
  have b: "records example_db 7 = Some example_record" by (simp add: example_db_def)
  have c: "assigned_admin_id example_record = None" by (simp add: example_record_def)
  have d: "dict_get ?data ''status'' \<in> JStr ` set allowed_statuses"
    by (simp add: dict_get_def allowed_statuses_def)
  from assigned_admin_set_once [OF a p b c d, of later_requests 20]
  obtain r' where "records (run_status later_requests
           (snd (update_status 20 (admin 3) 7 ?data example_db))) 7 = Some r'"
    and "assigned_admin_id r' = Some (ident_id (admin 3))" by blast
  with a p b c show ?thesis by (simp add: admin_def)
qed

section \<open>Record creation: properties\<close>

lemmas create_simps = anonymous_report_def create_record_def add_record_def add_media_def
  new_media_def error_response_def dict_get_def dict_get_default_def py_or_def valid_types_def
  record_not_null_def Let_def

text \<open>
  C5: an anonymous report with a title, a description and an allowed type is accepted
  (201); every accepted one stores, under the next record id, a record with status
  under-investigation (never draft), no owner and \<open>is_anonymous\<close> set; a refused one
  stores nothing.
\<close>

theorem anonymous_report_under_investigation:
  "(truthy (dict_get data ''title'') \<and> truthy (dict_get data ''description'')
      \<and> dict_get data ''type'' \<in> JStr ` set valid_types \<longrightarrow>
      snd (fst (anonymous_report uuid now data db)) = 201)
   \<and> (snd (fst (anonymous_report uuid now data db)) = 201 \<longrightarrow>
        (\<exists>r. records (snd (anonymous_report uuid now data db)) (next_record_id db) = Some r
           \<and> status r = ''under-investigation'' \<and> status r \<noteq> ''draft''
           \<and> normal_user_id r = None \<and> is_anonymous r))
   \<and> (snd (fst (anonymous_report uuid now data db)) \<noteq> 201 \<longrightarrow>
        snd (anonymous_report uuid now data db) = db)"
  by (auto simp: anonymous_report_def add_record_def add_media_def error_response_def Let_def)

theorem anonymous_report_under_investigation_witness:
  "truthy (dict_get checkpoint_report ''title'')
   \<and> truthy (dict_get checkpoint_report ''description'')
   \<and> dict_get checkpoint_report ''type'' \<in> JStr ` set valid_types
   \<and> snd (fst (anonymous_report ''AB12CD34'' 30 checkpoint_report example_db)) = 201
   \<and> map_option status
        (records (snd (anonymous_report ''AB12CD34'' 30 checkpoint_report example_db)) 8)
       = Some ''under-investigation''
   \<and> map_option normal_user_id
        (records (snd (anonymous_report ''AB12CD34'' 30 checkpoint_report example_db)) 8)
       = Some None
   \<and> map_option is_anonymous
        (records (snd (anonymous_report ''AB12CD34'' 30 checkpoint_report example_db)) 8)
       = Some True"
proof -
  have h: "truthy (dict_get checkpoint_report ''title'')
     \<and> truthy (dict_get checkpoint_report ''description'')
     \<and> dict_get checkpoint_report ''type'' \<in> JStr ` set valid_types"
    by (simp add: checkpoint_report_def dict_get_def valid_types_def)
  have n: "next_record_id example_db = 8" by (simp add: example_db_def)
  from anonymous_report_under_investigation [of checkpoint_report "''AB12CD34''" 30 example_db] h
  have c: "snd (fst (anonymous_report ''AB12CD34'' 30 checkpoint_report example_db)) = 201"
    by blast
  with anonymous_report_under_investigation [of checkpoint_report "''AB12CD34''" 30 example_db]
  obtain r where
    "records (snd (anonymous_report ''AB12CD34'' 30 checkpoint_report example_db)) 8 = Some r"
    and "status r = ''under-investigation''" and "normal_user_id r = None" and "is_anonymous r"
    unfolding n by blast
  with h c show ?thesis by simp
qed

section \<open>Public projection: properties\<close>

lemma map_of_dict_pop: "map_of (dict_pop d k) k' = (if k' = k then None else map_of d k')"
  by (induction d k rule: dict_pop.induct) auto

lemma map_of_dict_set: "map_of (dict_set d k v) k' = (if k' = k then Some v else map_of d k')"
  by (induction d k v rule: dict_set.induct) auto

lemma dict_pop_keys: "k \<notin> fst ` set (dict_pop d k)"
  by (induction d k rule: dict_pop.induct) auto

lemma dict_set_keys: "fst ` set (dict_set d k v) = insert k (fst ` set d)"
  by (induction d k v rule: dict_set.induct) auto

lemma to_public_dict_redacted:
  "''normal_user_id'' \<notin> fst ` set (to_public_dict db i r)
   \<and> dict_get (to_public_dict db i r) ''creator_name'' = JStr ''Anonymous''"
  by (simp add: to_public_dict_def Let_def dict_set_keys dict_pop_keys dict_get_def
      map_of_dict_set)

text \<open>
  C6: every entry of the public list has no \<open>normal_user_id\<close> key and carries
  \<open>creator_name = "Anonymous"\<close>; nothing is assumed about the record's
  \<open>is_anonymous\<close> flag.
\<close>

theorem public_view_is_redacted:
  "\<forall>d \<in> set (public_records db items).
      ''normal_user_id'' \<notin> fst ` set d \<and> dict_get d ''creator_name'' = JStr ''Anonymous''"
proof
  fix d assume "d \<in> set (public_records db items)"
  then obtain i r where "d = to_public_dict db i r"
    by (auto simp: public_records_def split: option.splits if_splits)
  then show "''normal_user_id'' \<notin> fst ` set d \<and> dict_get d ''creator_name'' = JStr ''Anonymous''"
    by (simp add: to_public_dict_redacted)
qed

theorem public_view_is_redacted_witness:
  "map_option is_anonymous (records resolved_db 7) = Some False
   \<and> dict_get (to_dict resolved_db 7 (example_record\<lparr>status := ''resolved''\<rparr>)) ''creator_name''
       = JStr ''Amina''
   \<and> to_public_dict resolved_db 7 (example_record\<lparr>status := ''resolved''\<rparr>)
       \<in> set (public_records resolved_db [7])
   \<and> dict_get (to_public_dict resolved_db 7 (example_record\<lparr>status := ''resolved''\<rparr>))
        ''creator_name'' = JStr ''Anonymous''
   \<and> ''normal_user_id''
       \<notin> fst ` set (to_public_dict resolved_db 7 (example_record\<lparr>status := ''resolved''\<rparr>))"
proof -
  let ?r = "example_record\<lparr>status := ''resolved''\<rparr>"
  have a: "map_option is_anonymous (records resolved_db 7) = Some False"
    by (simp add: resolved_db_def example_simps)
  have b: "dict_get (to_dict resolved_db 7 ?r) ''creator_name'' = JStr ''Amina''"
    by (simp add: to_dict_def dict_get_def resolved_db_def example_simps)
  have m: "to_public_dict resolved_db 7 ?r \<in> set (public_records resolved_db [7])"
    by (simp add: public_records_def resolved_db_def)
  from public_view_is_redacted [of resolved_db "[7]"] m
  have "''normal_user_id'' \<notin> fst ` set (to_public_dict resolved_db 7 ?r)
        \<and> dict_get (to_public_dict resolved_db 7 ?r) ''creator_name'' = JStr ''Anonymous''"
    by blast
  with a b m show ?thesis by simp
qed

section \<open>Validation on creation: properties\<close>

lemma dict_get_dict_set: "dict_get (dict_set d k v) k' = (if k' = k then v else dict_get d k')"
  by (simp add: dict_get_def map_of_dict_set)

text \<open>What \<open>create_record\<close>, the authenticated path, does validate.\<close>

lemma create_record_rejects_coordinates:
  assumes "role ident = ''user''" and "truthy (dict_get data ''title'')"
    and "dict_get data ''latitude'' \<noteq> JNull" and "dict_get data ''longitude'' \<noteq> JNull"
    and "\<not> validate_coordinates lib (dict_get data ''latitude'') (dict_get data ''longitude'')"
  shows "create_record lib now ident data db
           = (error_response ''Invalid coordinates provided'' 400, db)"
  using assms by (simp add: create_record_def Let_def dict_get_dict_set)

lemma create_record_rejects_image:
  assumes "role ident = ''user''"
    and "truthy (dict_get data ''image_url'')"
    and "\<not> validate_media_url lib (dict_get data ''image_url'') ''image''"
  shows "snd (fst (create_record lib now ident data db)) = 400
         \<and> snd (create_record lib now ident data db) = db"
  using assms by (simp add: create_record_def Let_def dict_get_dict_set error_response_def)

lemma create_record_rejects_video:
  assumes "role ident = ''user''"
    and "truthy (dict_get data ''video_url'')"
    and "\<not> validate_media_url lib (dict_get data ''video_url'') ''video''"
  shows "snd (fst (create_record lib now ident data db)) = 400
         \<and> snd (create_record lib now ident data db) = db"
  using assms by (simp add: create_record_def Let_def dict_get_dict_set error_response_def)

text \<open>
  C8, in the code: the anonymous path accepts a report with a title, a description and an
  allowed type whatever its coordinates and media URLs are. It answers 201 and stores
  the coordinates and the media row as sent; neither validator is consulted. The
  instance below sends latitude 999 and an image URL with the scheme \<^verbatim>\<open>ftp\<close>, which
  both validators reject and which the authenticated path refuses with 400.
\<close>

theorem anonymous_report_skips_validation:
  assumes "truthy (dict_get data ''title'')" and "truthy (dict_get data ''description'')"
    and "dict_get data ''type'' \<in> JStr ` set valid_types"
  shows "snd (fst (anonymous_report uuid now data db)) = 201
     \<and> map_option latitude (records (snd (anonymous_report uuid now data db)) (next_record_id db))
         = Some (dict_get data ''latitude'')
     \<and> map_option longitude (records (snd (anonymous_report uuid now data db)) (next_record_id db))
         = Some (dict_get data ''longitude'')
     \<and> (truthy (dict_get data ''image_url'') \<or> truthy (dict_get data ''video_url'') \<longrightarrow>
          (\<exists>m. media (snd (anonymous_report uuid now data db)) = media db @ [m]
             \<and> media_record_id m = next_record_id db
             \<and> image_url m = dict_get data ''image_url''
             \<and> video_url m = dict_get data ''video_url''))"
  using assms
  by (simp add: anonymous_report_def add_record_def add_media_def new_media_def Let_def)

theorem anonymous_report_skips_validation_witness:
  "\<not> validate_coordinates stdlib (dict_get bad_report ''latitude'') (dict_get bad_report ''longitude'')
   \<and> \<not> validate_media_url stdlib (dict_get bad_report ''image_url'') ''image''
   \<and> snd (fst (anonymous_report ''AB12CD34'' 30 bad_report example_db)) = 201
   \<and> map_option latitude (records (snd (anonymous_report ''AB12CD34'' 30 bad_report example_db)) 8)
       = Some (JNum 999)
   \<and> map image_url (media (snd (anonymous_report ''AB12CD34'' 30 bad_report example_db)))
       = [JStr ''ftp://example.org/run.exe'']
   \<and> create_record stdlib 30 (user 1) bad_report example_db
       = (error_response ''Invalid coordinates provided'' 400, example_db)"
proof -
  have v: "\<not> validate_coordinates stdlib (dict_get bad_report ''latitude'')
               (dict_get bad_report ''longitude'')
     \<and> \<not> validate_media_url stdlib (dict_get bad_report ''image_url'') ''image''"
    by (simp add: bad_report_def dict_get_def validate_coordinates_def validate_media_url_def
        stdlib_def simple_urlparse_def)
  have h: "truthy (dict_get bad_report ''title'')" "truthy (dict_get bad_report ''description'')"
    "dict_get bad_report ''type'' \<in> JStr ` set valid_types"
    by (simp_all add: bad_report_def dict_get_def valid_types_def)
  have g: "dict_get bad_report ''latitude'' = JNum 999"
    "dict_get bad_report ''image_url'' = JStr ''ftp://example.org/run.exe''"
    "next_record_id example_db = 8" "media example_db = []"
    by (simp_all add: bad_report_def dict_get_def example_db_def)
  note T = anonymous_report_skips_validation [OF h, of "''AB12CD34''" 30 example_db]
  from T have 1: "snd (fst (anonymous_report ''AB12CD34'' 30 bad_report example_db)) = 201"
    by blast
  from T have 2: "map_option latitude
      (records (snd (anonymous_report ''AB12CD34'' 30 bad_report example_db)) 8) = Some (JNum 999)"
    unfolding g by blast
  from T have "\<exists>m. media (snd (anonymous_report ''AB12CD34'' 30 bad_report example_db)) = [m]
      \<and> image_url m = JStr ''ftp://example.org/run.exe''"
    unfolding g by auto
  then have 3: "map image_url (media (snd (anonymous_report ''AB12CD34'' 30 bad_report example_db)))
       = [JStr ''ftp://example.org/run.exe'']" by auto
  have 4: "create_record stdlib 30 (user 1) bad_report example_db
       = (error_response ''Invalid coordinates provided'' 400, example_db)"
    using v
    by (intro create_record_rejects_coordinates)
       (simp_all add: user_def bad_report_def dict_get_def)
  from v 1 2 3 4 show ?thesis by simp
qed

section \<open>Owner update and delete: properties\<close>

text \<open>The three refusals of each handler, none of which changes the database.\<close>

lemma update_record_guards:
  "records db rid = None \<Longrightarrow>
     update_record lib now ident rid data db = (error_response ''Failed to update record'' 500, db)"
  "records db rid = Some r \<Longrightarrow> role ident \<noteq> ''user'' \<or> normal_user_id r \<noteq> Some (ident_id ident) \<Longrightarrow>
     update_record lib now ident rid data db = (error_response ''Unauthorized'' 403, db)"
  "records db rid = Some r \<Longrightarrow> role ident = ''user'' \<Longrightarrow> normal_user_id r = Some (ident_id ident) \<Longrightarrow>
     status r \<noteq> ''draft'' \<Longrightarrow>
     update_record lib now ident rid data db
       = (error_response ''Only draft records can be edited'' 400, db)"
  by (auto simp: update_record_def)

lemma delete_record_guards:
  "records db rid = None \<Longrightarrow>
     delete_record ident rid db = (error_response ''Failed to delete record'' 500, db)"
  "records db rid = Some r \<Longrightarrow> role ident \<noteq> ''user'' \<or> normal_user_id r \<noteq> Some (ident_id ident) \<Longrightarrow>
     delete_record ident rid db = (error_response ''Unauthorized'' 403, db)"
  "records db rid = Some r \<Longrightarrow> role ident = ''user'' \<Longrightarrow> normal_user_id r = Some (ident_id ident) \<Longrightarrow>
     status r \<noteq> ''draft'' \<Longrightarrow>
     delete_record ident rid db
       = (error_response ''Only draft records can be deleted'' 400, db)"
  by (auto simp: delete_record_def)

lemma delete_record_failure_keeps_db:
  "snd (fst (delete_record ident rid db)) \<noteq> 200 \<Longrightarrow> snd (delete_record ident rid db) = db"
  by (auto simp: delete_record_def error_response_def split: option.splits if_splits)

lemma update_record_failure_keeps_db:
  "snd (fst (update_record lib now ident rid data db)) \<noteq> 200 \<longrightarrow>
   snd (update_record lib now ident rid data db) = db"
  by (simp add: update_record_def Let_def case_prod_beta error_response_def
           split: option.splits)

text \<open>
  C4, in the code: an update or a delete of a record that does not exist. The
  \<^verbatim>\<open>NotFound\<close> that \<^verbatim>\<open>get_or_404\<close> raises is caught by the handler's own
  \<^verbatim>\<open>except Exception\<close>, so the caller receives the generic failure 500 and not 404.
  The database is unchanged.
\<close>

theorem absent_record_answers_500:
  assumes "records db rid = None"
  shows "update_record lib now ident rid data db
           = (error_response ''Failed to update record'' 500, db)
       \<and> delete_record ident rid db = (error_response ''Failed to delete record'' 500, db)"
  using assms by (simp add: update_record_def delete_record_def)

theorem absent_record_answers_500_witness:
  "records example_db 99 = None
   \<and> update_record stdlib 30 (user 1) 99 [(''title'', JStr ''New title'')] example_db
       = ((JObj [(''error'', JStr ''Failed to update record'')], 500), example_db)
   \<and> delete_record (user 1) 99 example_db
       = ((JObj [(''error'', JStr ''Failed to delete record'')], 500), example_db)"
proof -
  have h: "records example_db 99 = None" by (simp add: example_db_def)
  from absent_record_answers_500 [OF h, of stdlib 30 "user 1" "[(''title'', JStr ''New title'')]"]
  show ?thesis using h by (simp add: error_response_def)
qed

lemma patch_media_records [simp]: "records (snd (patch_media now rid data db)) = records db"
  by (simp add: patch_media_def add_media_def Let_def split: option.splits)

lemma apply_patch_type:
  "dict_has data ''type'' \<Longrightarrow> rec_type (apply_patch data r) = dict_get data ''type''"
  by (simp add: apply_patch_def Let_def)

lemma apply_patch_title:
  "\<not> dict_has data ''title'' \<Longrightarrow> title (apply_patch data r) = title r"
  by (simp add: apply_patch_def Let_def)

lemma apply_patch_description:
  "\<not> dict_has data ''description'' \<Longrightarrow> description (apply_patch data r) = description r"
  by (simp add: apply_patch_def Let_def)

lemma update_record_success:
  "records db rid = Some r \<longrightarrow>
   snd (fst (update_record lib now ident rid data db)) = 200 \<longrightarrow>
   records (snd (update_record lib now ident rid data db)) rid
           = Some ((apply_patch data r)\<lparr>updated_at := now\<rparr>)"
  by (simp add: update_record_def Let_def case_prod_beta error_response_def)

lemma patch_media_untouched:
  "\<not> dict_has data ''image_url'' \<Longrightarrow> \<not> dict_has data ''video_url'' \<Longrightarrow>
   patch_media now rid data db = (None, db)"
  by (simp add: patch_media_def)

lemma update_record_plain_patch:
  assumes "records db rid = Some r" and "role ident = ''user''"
    and "normal_user_id r = Some (ident_id ident)" and "status r = ''draft''"
    and "\<not> dict_has data ''latitude''" and "\<not> dict_has data ''longitude''"
    and "\<not> dict_has data ''image_url''" and "\<not> dict_has data ''video_url''"
    and "record_not_null (apply_patch data r)"
  shows "snd (fst (update_record lib now ident rid data db)) = 200"
  using assms
  by (simp add: update_record_def Let_def patch_media_untouched record_not_null_def)

text \<open>
  C10: when the owner patches a draft record and the patch carries a string under
  \<open>type\<close>, every accepted update stores exactly that string as the record's type; no
  membership in the allowed type set is assumed. The update is accepted whenever the
  patch touches none of the validated or not-null fields.
\<close>

theorem update_stores_type_unchecked:
  assumes "records db rid = Some r" and "role ident = ''user''"
    and "normal_user_id r = Some (ident_id ident)" and "status r = ''draft''"
    and "map_of data ''type'' = Some (JStr s)"
  shows "(snd (fst (update_record lib now ident rid data db)) = 200 \<longrightarrow>
           map_option rec_type (records (snd (update_record lib now ident rid data db)) rid)
             = Some (JStr s))
       \<and> (title r \<noteq> JNull \<and> description r \<noteq> JNull
          \<and> (\<forall>k \<in> set [''title'', ''description'', ''latitude'', ''longitude'', ''image_url'',
                         ''video_url'']. \<not> dict_has data k) \<longrightarrow>
           snd (fst (update_record lib now ident rid data db)) = 200)"
proof (intro conjI impI)
  from assms(5) have has: "dict_has data ''type''" and get: "dict_get data ''type'' = JStr s"
    by (simp_all add: dict_has_def dict_get_def)
  {
    assume "snd (fst (update_record lib now ident rid data db)) = 200"
    with update_record_success [of db rid r lib now ident data] assms(1)
    have "records (snd (update_record lib now ident rid data db)) rid
           = Some ((apply_patch data r)\<lparr>updated_at := now\<rparr>)" by blast
    then show "map_option rec_type (records (snd (update_record lib now ident rid data db)) rid)
             = Some (JStr s)"
      by (simp add: apply_patch_type [OF has] get)
  }
  {
    assume a: "title r \<noteq> JNull \<and> description r \<noteq> JNull
          \<and> (\<forall>k \<in> set [''title'', ''description'', ''latitude'', ''longitude'', ''image_url'',
                         ''video_url'']. \<not> dict_has data k)"
    then have "record_not_null (apply_patch data r)"
      by (simp add: record_not_null_def apply_patch_type [OF has] get apply_patch_title
          apply_patch_description)
    with a show "snd (fst (update_record lib now ident rid data db)) = 200"
      by (intro update_record_plain_patch [OF assms(1-4)]) simp_all
  }
qed

theorem update_stores_type_unchecked_witness:
  "records example_db 7 = Some example_record \<and> role (user 1) = ''user''
   \<and> normal_user_id example_record = Some (ident_id (user 1)) \<and> status example_record = ''draft''
   \<and> ''bogus'' \<notin> set valid_types
   \<and> snd (fst (update_record stdlib 30 (user 1) 7 [(''type'', JStr ''bogus'')] example_db)) = 200
   \<and> map_option rec_type
        (records (snd (update_record stdlib 30 (user 1) 7 [(''type'', JStr ''bogus'')] example_db)) 7)
       = Some (JStr ''bogus'')"
proof -
  let ?data = "[(''type'', JStr ''bogus'')]"
  have a: "records example_db 7 = Some example_record" by (simp add: example_db_def)
  have b: "role (user 1) = ''user''" by (simp add: user_def)
  have c: "normal_user_id example_record = Some (ident_id (user 1))"
    by (simp add: example_record_def user_def)
  have d: "status example_record = ''draft''" by (simp add: example_record_def)
  have e: "map_of ?data ''type'' = Some (JStr ''bogus'')" by simp
  have f: "title example_record \<noteq> JNull \<and> description example_record \<noteq> JNull
          \<and> (\<forall>k \<in> set [''title'', ''description'', ''latitude'', ''longitude'', ''image_url'',
                         ''video_url'']. \<not> dict_has ?data k)"
    by (simp add: example_record_def dict_has_def)
  have g: "''bogus'' \<notin> set valid_types" by (simp add: valid_types_def)
  note T = update_stores_type_unchecked [OF a b c d e, of stdlib 30]
  from T f have 1: "snd (fst (update_record stdlib 30 (user 1) 7 ?data example_db)) = 200"
    by blast
  with T have 2: "map_option rec_type
        (records (snd (update_record stdlib 30 (user 1) 7 ?data example_db)) 7)
       = Some (JStr ''bogus'')" by blast
  from a b c d g 1 2 show ?thesis by simp
qed

end
